theory Spec2Isabelle
  imports Complex_Main "HOL-Library.Word" "HOL-Library.Sublist"
begin

section \<open>Floating-point values\<close>

text \<open>
  A value of type \<^verbatim>\<open>float\<close> or \<^verbatim>\<open>double\<close> is a finite number, an infinity or not a number
  (the sign of a zero plays no part below). The arithmetic is that of IEEE 754 with the
  rounding left as a parameter: \<open>rnd x\<close> is the value of the format that the exact result
  \<open>x\<close> is rounded to, an infinity when \<open>x\<close> is too large for the format.
\<close>

datatype fp = Finite real | PlusInfinity | MinusInfinity | NaN

fun fp_sub :: "(real \<Rightarrow> fp) \<Rightarrow> fp \<Rightarrow> fp \<Rightarrow> fp" where
  "fp_sub rnd NaN y = NaN"
| "fp_sub rnd x NaN = NaN"
| "fp_sub rnd (Finite a) (Finite b) = rnd (a - b)"
| "fp_sub rnd (Finite a) PlusInfinity = MinusInfinity"
| "fp_sub rnd (Finite a) MinusInfinity = PlusInfinity"
| "fp_sub rnd PlusInfinity PlusInfinity = NaN"
| "fp_sub rnd MinusInfinity MinusInfinity = NaN"
| "fp_sub rnd PlusInfinity y = PlusInfinity"
| "fp_sub rnd MinusInfinity y = MinusInfinity"

fun fp_mul :: "(real \<Rightarrow> fp) \<Rightarrow> fp \<Rightarrow> fp \<Rightarrow> fp" where
  "fp_mul rnd NaN y = NaN"
| "fp_mul rnd x NaN = NaN"
| "fp_mul rnd (Finite a) (Finite b) = rnd (a * b)"
| "fp_mul rnd (Finite a) PlusInfinity =
     (if a = 0 then NaN else if 0 < a then PlusInfinity else MinusInfinity)"
| "fp_mul rnd (Finite a) MinusInfinity =
     (if a = 0 then NaN else if 0 < a then MinusInfinity else PlusInfinity)"
| "fp_mul rnd PlusInfinity (Finite b) =
     (if b = 0 then NaN else if 0 < b then PlusInfinity else MinusInfinity)"
| "fp_mul rnd MinusInfinity (Finite b) =
     (if b = 0 then NaN else if 0 < b then MinusInfinity else PlusInfinity)"
| "fp_mul rnd PlusInfinity PlusInfinity = PlusInfinity"
| "fp_mul rnd MinusInfinity MinusInfinity = PlusInfinity"
| "fp_mul rnd PlusInfinity MinusInfinity = MinusInfinity"
| "fp_mul rnd MinusInfinity PlusInfinity = MinusInfinity"

text \<open>
  Division by an \<^verbatim>\<open>int\<close> that is not zero: the divisor converts exactly (to \<^verbatim>\<open>double\<close>).
\<close>

definition fp_div_int :: "(real \<Rightarrow> fp) \<Rightarrow> fp \<Rightarrow> int \<Rightarrow> fp" where
  "fp_div_int rnd x d =
     (case x of
        Finite a \<Rightarrow> rnd (a / real_of_int d)
      | PlusInfinity \<Rightarrow> (if 0 < d then PlusInfinity else MinusInfinity)
      | MinusInfinity \<Rightarrow> (if 0 < d then MinusInfinity else PlusInfinity)
      | NaN \<Rightarrow> NaN)"

text \<open>The conversion \<^verbatim>\<open>(float)\<close> of a \<^verbatim>\<open>double\<close>: a finite value is rounded to the narrower format.\<close>

definition fp_narrow :: "(real \<Rightarrow> fp) \<Rightarrow> fp \<Rightarrow> fp" where
  "fp_narrow rnd x = (case x of Finite a \<Rightarrow> rnd a | PlusInfinity \<Rightarrow> PlusInfinity
                       | MinusInfinity \<Rightarrow> MinusInfinity | NaN \<Rightarrow> NaN)"

text \<open>
  \<^verbatim>\<open>static_cast<int>\<close> of a floating-point value truncates towards zero. The behaviour is
  undefined when the truncated value is not an \<^verbatim>\<open>int\<close> (32 bits), so also for the
  infinities and for a value that is not a number: \<open>None\<close>.
\<close>

definition fp_to_int :: "fp \<Rightarrow> int option" where
  "fp_to_int x =
     (case x of
        Finite v \<Rightarrow>
          (let t = (if 0 \<le> v then \<lfloor>v\<rfloor> else \<lceil>v\<rceil>)
           in if - 2147483648 \<le> t \<and> t \<le> 2147483647 then Some t else None)
      | PlusInfinity \<Rightarrow> None
      | MinusInfinity \<Rightarrow> None
      | NaN \<Rightarrow> None)"

text \<open>
  What the statements below ask of a rounding into single precision: a value between two
  integers of magnitude up to \<open>2^24\<close> is rounded to a finite value between the same two
  integers. Rounding to nearest does so, because these integers are values of the format
  and the rounding is monotone. The exact arithmetic, \<open>Finite\<close> itself, does so too.
\<close>

definition rounds_between_integers :: "(real \<Rightarrow> fp) \<Rightarrow> bool" where
  "rounds_between_integers rnd =
     (\<forall>x. \<forall>a b :: int.
        - 16777216 \<le> a \<and> real_of_int a \<le> x \<and> x \<le> real_of_int b \<and> b \<le> 16777216
        \<longrightarrow> (\<exists>y. rnd x = Finite y \<and> real_of_int a \<le> y \<and> y \<le> real_of_int b))"

section \<open>Terminal user interface (util/terminal/TerminalUI.cpp)\<close>

subsection \<open>Multi-line labels\<close>

text \<open>
  \<^verbatim>\<open>TerminalMultilineLabel::render\<close> cuts the label's content into lines with a local
  lambda \<^verbatim>\<open>chunk_string(str, chunk_length)\<close>. A \<^verbatim>\<open>std::string\<close> is a list of bytes,
  the line width is a \<^verbatim>\<open>uint32_t\<close>, sizes and the loop counter are \<^verbatim>\<open>size_t\<close>.

  The number of chunks is \<^verbatim>\<open>static_cast<size_t>(std::ceil(str.size() / static_cast<double>(chunk_length)))\<close>.
  Both operands are converted to \<^verbatim>\<open>double\<close>; a size below \<open>2^53\<close> and every
  \<^verbatim>\<open>uint32_t\<close> convert exactly, and for such operands the correctly rounded quotient
  has the same ceiling as the exact one (a quotient that is not an integer lies at least
  \<open>1 / chunk_length\<close> above the integer below it, more than half a unit in the last
  place there). The model therefore takes the ceiling of the exact quotient; the theorems
  on it are stated for sizes below \<open>2^53\<close>.
\<close>

definition num_chunks :: "nat \<Rightarrow> 32 word \<Rightarrow> nat" where
  "num_chunks n chunk_length = nat \<lceil>real n / real (unat chunk_length)\<rceil>"

text \<open>
  One pass of the loop body: the characters from \<^verbatim>\<open>str.begin() + chunk * chunk_length\<close>
  up to \<^verbatim>\<open>end_iter\<close>, which is \<^verbatim>\<open>str.end()\<close> when the next boundary reaches the end of
  the string.
\<close>

definition chunk_at :: "string \<Rightarrow> 32 word \<Rightarrow> nat \<Rightarrow> string" where
  "chunk_at str chunk_length chunk =
     (let start_iter = chunk * unat chunk_length;
          end_iter = (if (chunk + 1) * unat chunk_length \<ge> length str
                      then length str
                      else (chunk + 1) * unat chunk_length)
      in take (end_iter - start_iter) (drop start_iter str))"

text \<open>
  With a chunk length of zero the quotient is infinite (or not a number, for the empty
  string) and its conversion to \<^verbatim>\<open>size_t\<close> has no defined result: \<open>None\<close>.
\<close>

definition chunk_string :: "string \<Rightarrow> 32 word \<Rightarrow> string list option" where
  "chunk_string str chunk_length =
     (if chunk_length = 0 then None
      else Some (map (chunk_at str chunk_length) [0..<num_chunks (length str) chunk_length]))"

record TerminalMultilineLabel =
  content :: string
  color :: string
  line_width :: "32 word"

definition render_lines :: "TerminalMultilineLabel \<Rightarrow> string list option" where
  "render_lines label = chunk_string (content label) (line_width label)"

text \<open>
  What \<^verbatim>\<open>render\<close> appends to the stream: every line, preceded by the colour code when
  the terminal is a tty, followed by a newline.
\<close>

definition TerminalMultilineLabel_render :: "bool \<Rightarrow> TerminalMultilineLabel \<Rightarrow> string option" where
  "TerminalMultilineLabel_render terminal_is_tty label =
     map_option
       (\<lambda>lines. concat (map (\<lambda>line. (if terminal_is_tty then color label else []) @ line @ [CHR 0x0A]) lines))
       (render_lines label)"

subsection \<open>Progress glyphs\<close>

text \<open>
  \<^verbatim>\<open>get_progress_glyph(float progress)\<close> picks one of nine block glyphs (UTF-8 encoded
  U+2588 down to U+258F, then a blank).
\<close>

definition Glyphs :: "string list" where
  "Glyphs =
     [[CHR 0xE2, CHR 0x96, CHR 0x88], [CHR 0xE2, CHR 0x96, CHR 0x89], [CHR 0xE2, CHR 0x96, CHR 0x8A],
      [CHR 0xE2, CHR 0x96, CHR 0x8B], [CHR 0xE2, CHR 0x96, CHR 0x8C], [CHR 0xE2, CHR 0x96, CHR 0x8D],
      [CHR 0xE2, CHR 0x96, CHR 0x8E], [CHR 0xE2, CHR 0x96, CHR 0x8F], '' '']"

text \<open>The product \<^verbatim>\<open>(1.f - progress) * 8\<close>, in single precision.\<close>

definition scaled_progress :: "(real \<Rightarrow> fp) \<Rightarrow> fp \<Rightarrow> fp" where
  "scaled_progress rnd progress = fp_mul rnd (fp_sub rnd (Finite 1) progress) (Finite 8)"

text \<open>
  \<^verbatim>\<open>step\<close>: the product converted to \<^verbatim>\<open>int\<close>, then clamped with \<^verbatim>\<open>std::min\<close> and
  \<^verbatim>\<open>std::max\<close>. Where the conversion is undefined, so is all that follows it.
\<close>

definition progress_step :: "(real \<Rightarrow> fp) \<Rightarrow> fp \<Rightarrow> int option" where
  "progress_step rnd progress =
     map_option (\<lambda>k. max 0 (min 8 k)) (fp_to_int (scaled_progress rnd progress))"

text \<open>Indexing a \<^verbatim>\<open>std::array\<close>: only an index inside the array reads an element.\<close>

definition array_at :: "'a list \<Rightarrow> int \<Rightarrow> 'a option" where
  "array_at xs i = (if 0 \<le> i \<and> i < int (length xs) then Some (xs ! nat i) else None)"

definition get_progress_glyph :: "(real \<Rightarrow> fp) \<Rightarrow> fp \<Rightarrow> string option" where
  "get_progress_glyph rnd progress =
     (case progress_step rnd progress of
        None \<Rightarrow> None
      | Some step \<Rightarrow> array_at Glyphs step)"

section \<open>The converter (PotreeConverter.cpp)\<close>

text \<open>
  The converter works on the file system, prints to \<^verbatim>\<open>std::cout\<close> and \<^verbatim>\<open>std::cerr\<close>, and
  drives a \<^verbatim>\<open>PotreeWriter\<close>. These effects are explicit here: every function takes the
  state it reads and returns the state it leaves. A thrown exception is the left summand
  of the result, together with the state at the moment of the throw. Updates of the
  progress display, timing and throughput counters are left out; so are the lines printed
  with floating-point values (bounding boxes, spacing).
\<close>

subsection \<open>The file system\<close>

text \<open>
  \<^verbatim>\<open>std::experimental::filesystem\<close> is a library outside the repository. The model keeps,
  for every path that exists, its file type; a path is the string the program passes, and
  the entries of a directory \<open>dir\<close> are the existing paths \<open>dir/name\<close> with a single
  component \<open>name\<close>. The list order stands for the order in which a directory iterator
  delivers entries. Failures of the medium (permissions, input/output errors) are not
  modelled.
\<close>

type_synonym path = string

datatype file_type = regular | directory | other

type_synonym filesystem = "(path \<times> file_type) list"

definition fs_exists :: "filesystem \<Rightarrow> path \<Rightarrow> bool" where
  "fs_exists fs p = (map_of fs p \<noteq> None)"

definition is_directory :: "filesystem \<Rightarrow> path \<Rightarrow> bool" where
  "is_directory fs p = (map_of fs p = Some directory)"

definition is_regular_file :: "filesystem \<Rightarrow> path \<Rightarrow> bool" where
  "is_regular_file fs p = (map_of fs p = Some regular)"

definition is_entry_of :: "path \<Rightarrow> path \<Rightarrow> bool" where
  "is_entry_of dir p =
     (prefix (dir @ ''/'') p \<and>
      (let name = drop (length dir + 1) p in name \<noteq> [] \<and> CHR ''/'' \<notin> set name))"

definition directory_entries :: "filesystem \<Rightarrow> path \<Rightarrow> path list" where
  "directory_entries fs dir = filter (is_entry_of dir) (map fst fs)"

text \<open>\<^verbatim>\<open>remove_all(p)\<close> deletes \<open>p\<close> and everything below it.\<close>

definition is_below :: "path \<Rightarrow> path \<Rightarrow> bool" where
  "is_below p q = (q = p \<or> prefix (p @ ''/'') q)"

definition remove_all :: "filesystem \<Rightarrow> path \<Rightarrow> filesystem" where
  "remove_all fs p = filter (\<lambda>(q, t). \<not> is_below p q) fs"

text \<open>
  What ends a run early: a \<^verbatim>\<open>std::runtime_error\<close> with its message, the error of the
  file system library (a directory iterator opened on something that is not a directory, a
  directory that cannot be created), and the use of the null pointer that
  \<^verbatim>\<open>createPointReader\<close> returns for a path with no known extension.
\<close>

datatype error = runtime_error string | filesystem_error path | null_reader path

text \<open>
  \<^verbatim>\<open>create_directories(p)\<close> creates \<open>p\<close> and each ancestor that is missing. It throws for
  the empty path, and when \<open>p\<close> or one of its ancestors exists and is not a directory.
\<close>

definition ancestors :: "path \<Rightarrow> path list" where
  "ancestors p = map (\<lambda>i. take i p) (filter (\<lambda>i. p ! i = CHR ''/'') [1..<length p])"

definition create_directory :: "path \<Rightarrow> path \<Rightarrow> error + filesystem \<Rightarrow> error + filesystem" where
  "create_directory p d r =
     (case r of
        Inl e \<Rightarrow> Inl e
      | Inr fs \<Rightarrow>
          (case map_of fs d of
             None \<Rightarrow> Inr (fs @ [(d, directory)])
           | Some t \<Rightarrow> if t = directory then Inr fs else Inl (filesystem_error p)))"

definition create_directories :: "filesystem \<Rightarrow> path \<Rightarrow> error + filesystem" where
  "create_directories fs p =
     (if p = [] then Inl (filesystem_error p)
      else fold (create_directory p) (ancestors p @ [p]) (Inr fs))"

text \<open>
  Modelled from the spec: \<^verbatim>\<open>iEndsWith\<close> is declared in \<^verbatim>\<open>stuff.h\<close>, which is not among
  the sources. The spec has readers chosen and directories expanded by file extension;
  the test is taken to compare the end of the string with the extension, ignoring the
  case of ASCII letters, as the name says.
\<close>

definition tolower :: "char \<Rightarrow> char" where
  "tolower c =
     (case map_of (zip ''ABCDEFGHIJKLMNOPQRSTUVWXYZ'' ''abcdefghijklmnopqrstuvwxyz'') c of
        Some l \<Rightarrow> l
      | None \<Rightarrow> c)"

definition iEndsWith :: "string \<Rightarrow> string \<Rightarrow> bool" where
  "iEndsWith str ending =
     (length ending \<le> length str \<and>
      map tolower (drop (length str - length ending) str) = map tolower ending)"

subsection \<open>Program state outside the converter object\<close>

record world =
  files :: filesystem
  cout :: "string list"
  cerr :: "string list"

definition print_cout :: "string \<Rightarrow> world \<Rightarrow> world" where
  "print_cout line w = w\<lparr>cout := cout w @ [line]\<rparr>"

definition print_cerr :: "string \<Rightarrow> world \<Rightarrow> world" where
  "print_cerr line w = w\<lparr>cerr := cerr w @ [line]\<rparr>"

subsection \<open>Coordinate transformation\<close>

text \<open>
  Modelled from the spec: the classes \<^verbatim>\<open>IdentityTransform\<close> and \<^verbatim>\<open>Proj4Transform\<close>
  (Transformation.h) are not among the sources. A transform is either the identity or the
  projection-based one built from the source projection; whether the constructor of
  \<^verbatim>\<open>Proj4Transform\<close> succeeds is the parameter \<open>Proj4Transform_init\<close>: \<open>None\<close> when the
  object is constructed, \<open>Some what\<close> when it throws a \<^verbatim>\<open>std::runtime_error\<close> with that
  message (the spec's \<^verbatim>\<open>TransformFailure\<close>).
\<close>

datatype SRSTransformHelper = IdentityTransform | Proj4Transform string

text \<open>
  \<^verbatim>\<open>std::strcmp\<close> on \<^verbatim>\<open>c_str()\<close> compares the characters before the first NUL.
\<close>

definition c_str :: "string \<Rightarrow> string" where
  "c_str s = takeWhile (\<lambda>c. c \<noteq> CHR 0x00) s"

definition strcmp_is_0 :: "string \<Rightarrow> string \<Rightarrow> bool" where
  "strcmp_is_0 a b = (c_str a = c_str b)"

definition WGS84 :: string where
  "WGS84 = ''+proj=longlat +datum=WGS84 +no_defs''"

definition get_transformation_helper ::
  "(string \<Rightarrow> string option) \<Rightarrow> string option \<Rightarrow> world \<Rightarrow> SRSTransformHelper \<times> world" where
  "get_transformation_helper Proj4Transform_init sourceProjection w =
     (case sourceProjection of
        None \<Rightarrow>
          (IdentityTransform,
           print_cout ''Source projection not specified, skipping point transformation...'' w)
      | Some projection \<Rightarrow>
          if strcmp_is_0 projection WGS84 then
            (IdentityTransform,
             print_cout ''Source projection is already WGS84, skipping point transformation...'' w)
          else
            (case Proj4Transform_init projection of
               None \<Rightarrow> (Proj4Transform projection, w)
             | Some what \<Rightarrow>
                 (IdentityTransform,
                  print_cerr ''Skipping point transformation...''
                    (print_cerr (''Error while setting up coordinate transformation:'' @ [CHR 0x0A] @ what) w))))"

subsection \<open>The output directory\<close>

text \<open>
  Modelled from the spec: the enumeration \<^verbatim>\<open>StoreOption\<close> is declared outside the sources;
  the spec lists its three values.
\<close>

datatype StoreOption = ABORT_IF_EXISTS | OVERWRITE | INCREMENTAL

definition output_not_empty :: error where
  "output_not_empty = runtime_error
     (''Output directory is not empty. Specify --overwrite if you want to '' @
      ''overwrite the contents of the output folder!'')"

text \<open>
  \<^verbatim>\<open>verifyWorkDir\<close>. The loop over \<^verbatim>\<open>fs::directory_iterator{workDir}\<close> removes every entry
  with all that lies below it; the iterator cannot be opened on a path that is not a
  directory.
\<close>

definition verifyWorkDir :: "path \<Rightarrow> StoreOption \<Rightarrow> world \<Rightarrow> (error + unit) \<times> world" where
  "verifyWorkDir workDir storeOption w =
     (if fs_exists (files w) workDir then
        (let rootFile = workDir @ ''/r.json'' in
         if fs_exists (files w) rootFile \<and> storeOption = ABORT_IF_EXISTS then
           (Inl output_not_empty, w)
         else if storeOption = INCREMENTAL then
           (Inr (), print_cout ''Appending to existing output directory...'' w)
         else
           (let w1 = print_cout ''Output directory not empty, removing existing files...'' w in
            if \<not> is_directory (files w1) workDir then (Inl (filesystem_error workDir), w1)
            else
              (Inr (),
               w1\<lparr>files := fold (\<lambda>entry fs. remove_all fs entry)
                               (directory_entries (files w1) workDir) (files w1)\<rparr>)))
      else
        (let w1 = print_cout ''Output directory does not exist, creating it...'' w in
         case create_directories (files w1) workDir of
           Inl e \<Rightarrow> (Inl e, w1)
         | Inr fs \<Rightarrow> (Inr (), w1\<lparr>files := fs\<rparr>)))"

subsection \<open>Point readers\<close>

text \<open>
  Modelled from the spec: the attribute enumeration, \<^verbatim>\<open>AABB\<close> and the reader classes are
  declared outside the sources. The spec fixes the attribute set and describes an
  \<^verbatim>\<open>AABB\<close> as a pair of corners; a reader is represented by the constructor call that
  creates it, with its arguments. Values of type \<^verbatim>\<open>double\<close> are only passed on here, never
  computed with, and are written as reals.
\<close>

datatype PointAttribute =
  POSITION_CARTESIAN | COLOR_PACKED | COLOR_FROM_INTENSITY | INTENSITY | CLASSIFICATION | NORMAL_OCT16

type_synonym Vector3 = "real \<times> real \<times> real"

datatype AABB = AABB Vector3 Vector3

datatype PointReader =
    LASPointReader path "PointAttribute list"
  | PTXPointReader path
  | PlyPointReader path
  | XYZPointReader path string "real list" "real list"
  | BINPointReader path AABB real "PointAttribute list"

text \<open>The members of \<^verbatim>\<open>PotreeConverter\<close> that the functions below read or write.\<close>

record PotreeConverter =
  workDir :: path
  sources :: "path list"
  storeOption :: StoreOption
  outputAttributes :: "string list"
  pointAttributes :: "PointAttribute list"
  format :: string
  colorRange :: "real list"
  intensityRange :: "real list"
  aabb :: AABB
  scale :: real
  sourceProjection :: "string option"
  pageName :: string
  diagonalFraction :: int
  spacing :: fp

text \<open>
  \<^verbatim>\<open>createPointReader\<close>; \<open>None\<close> is the null pointer. In the branch for \<^verbatim>\<open>.pts\<close> the
  source declares a local vector named \<^verbatim>\<open>intensityRange\<close>, fills it when the member of
  the same name is empty, and passes the local vector to the reader.
\<close>

definition createPointReader :: "PotreeConverter \<Rightarrow> path \<Rightarrow> PointAttribute list \<Rightarrow> PointReader option" where
  "createPointReader this path' pointAttributes' =
     (if iEndsWith path' ''.las'' \<or> iEndsWith path' ''.laz'' then
        Some (LASPointReader path' pointAttributes')
      else if iEndsWith path' ''.ptx'' then
        Some (PTXPointReader path')
      else if iEndsWith path' ''.ply'' then
        Some (PlyPointReader path')
      else if iEndsWith path' ''.xyz'' \<or> iEndsWith path' ''.txt'' then
        Some (XYZPointReader path' (format this) (colorRange this) (intensityRange this))
      else if iEndsWith path' ''.pts'' then
        (let intensityRange' = [];
             intensityRange' = (if length (intensityRange this) = 0
                                then intensityRange' @ [- 2048] @ [2047]
                                else intensityRange')
         in Some (XYZPointReader path' (format this) (colorRange this) intensityRange'))
      else if iEndsWith path' ''.bin'' then
        Some (BINPointReader path' (aabb this) (scale this) pointAttributes')
      else None)"

subsection \<open>Preparation\<close>

definition cant_open :: "path \<Rightarrow> string" where
  "cant_open source = ''Can't open input file '' @ [CHR 0x22] @ source @ [CHR 0x22]"

definition recognised_in_directory :: "path \<Rightarrow> bool" where
  "recognised_in_directory filepath =
     (iEndsWith filepath ''.las'' \<or> iEndsWith filepath ''.laz'' \<or>
      iEndsWith filepath ''.xyz'' \<or> iEndsWith filepath ''.pts'' \<or>
      iEndsWith filepath ''.ptx'' \<or> iEndsWith filepath ''.ply'')"

text \<open>
  The body of the loop over \<^verbatim>\<open>sources\<close> in \<^verbatim>\<open>prepare\<close>: the accumulator holds
  \<^verbatim>\<open>sourceFiles\<close> and the lines printed so far.
\<close>

definition add_source :: "filesystem \<Rightarrow> path list \<times> string list \<Rightarrow> path \<Rightarrow> path list \<times> string list" where
  "add_source fs acc source =
     (case acc of (sourceFiles, out) \<Rightarrow>
        if is_directory fs source then
          (sourceFiles @
             filter (\<lambda>filepath. is_regular_file fs filepath \<and> recognised_in_directory filepath)
               (directory_entries fs source),
           out)
        else if is_regular_file fs source then (sourceFiles @ [source], out)
        else (sourceFiles, out @ [cant_open source]))"

definition collect_sources :: "filesystem \<Rightarrow> path list \<Rightarrow> path list \<times> string list" where
  "collect_sources fs srcs = foldl (add_source fs) ([], []) srcs"

text \<open>The \<^verbatim>\<open>erase\<close>/\<^verbatim>\<open>remove_if\<close> that follows the loop.\<close>

definition erase_missing :: "filesystem \<Rightarrow> path list \<Rightarrow> path list \<times> string list" where
  "erase_missing fs sourceFiles =
     (filter (fs_exists fs) sourceFiles,
      map cant_open (filter (\<lambda>path'. \<not> fs_exists fs path') sourceFiles))"

text \<open>
  Modelled from the spec: the class \<^verbatim>\<open>PointAttributes\<close> is not among the sources; the spec
  calls it an ordered list, and \<^verbatim>\<open>add\<close> is taken to append. Its \<^verbatim>\<open>toString\<close> is a
  parameter of \<^verbatim>\<open>prepare\<close>.
\<close>

definition add_output_attribute :: "PointAttribute list \<Rightarrow> string \<Rightarrow> PointAttribute list" where
  "add_output_attribute attrs attribute =
     (if attribute = ''RGB'' then attrs @ [COLOR_PACKED]
      else if attribute = ''RGB_FROM_INTENSITY'' then attrs @ [COLOR_FROM_INTENSITY]
      else if attribute = ''INTENSITY'' then attrs @ [INTENSITY]
      else if attribute = ''CLASSIFICATION'' then attrs @ [CLASSIFICATION]
      else if attribute = ''NORMAL'' then attrs @ [NORMAL_OCT16]
      else attrs)"

definition prepare ::
  "(PointAttribute list \<Rightarrow> string) \<Rightarrow> PotreeConverter \<Rightarrow> world \<Rightarrow> (error + PotreeConverter) \<times> world" where
  "prepare toString this w =
     (case verifyWorkDir (workDir this) (storeOption this) w of
        (Inl e, w1) \<Rightarrow> (Inl e, w1)
      | (Inr _, w1) \<Rightarrow>
          (case collect_sources (files w1) (sources this) of (sourceFiles, out1) \<Rightarrow>
           case erase_missing (files w1) sourceFiles of (sourceFiles', out2) \<Rightarrow>
             (let attrs = foldl add_output_attribute
                            (pointAttributes this @ [POSITION_CARTESIAN]) (outputAttributes this);
                  out3 = [''Writing the following point attributes: '' @ toString attrs]
              in (Inr (this\<lparr>sources := sourceFiles', pointAttributes := attrs\<rparr>),
                  w1\<lparr>cout := cout w1 @ out1 @ out2 @ out3\<rparr>))))"

subsection \<open>Feeding the writer\<close>

text \<open>
  The counters of \<^verbatim>\<open>convert\<close> are of type \<^verbatim>\<open>size_t\<close>, 64 bits wide; the comparison with
  \<^verbatim>\<open>PROCESS_COUNT\<close> and the subtraction are done in that type. A batch is represented by
  its number of points, and it is empty when that number is zero.
\<close>

definition PROCESS_COUNT :: "64 word" where
  "PROCESS_COUNT = 1000000"

text \<open>
  The class \<^verbatim>\<open>PotreeWriter\<close> is not among the sources: its member functions are parameters,
  acting on a writer state of any type \<open>'w\<close>.
\<close>

record 'w PotreeWriter_ops =
  add :: "64 word \<Rightarrow> 'w \<Rightarrow> 'w"
  processStore :: "'w \<Rightarrow> 'w"
  waitUntilProcessed :: "'w \<Rightarrow> 'w"
  needs_flush :: "'w \<Rightarrow> bool"
  flush :: "'w \<Rightarrow> 'w"
  close :: "'w \<Rightarrow> 'w"

text \<open>
  The state of the loops of \<^verbatim>\<open>convert\<close>. The field \<open>calls\<close> is not in the program: it
  records, in order, the calls made on the writer.
\<close>

datatype writer_call = Add "64 word" | ProcessStore | WaitUntilProcessed | Flush | Close

record 'w convert_state =
  pointsProcessed :: "64 word"
  pointsSinceLastProcessing :: "64 word"
  writer :: 'w
  calls :: "writer_call list"

definition convert_start :: "'w \<Rightarrow> 'w convert_state" where
  "convert_start wr = \<lparr>pointsProcessed = 0, pointsSinceLastProcessing = 0, writer = wr, calls = []\<rparr>"

text \<open>The body of the inner loop, for a batch that is not empty.\<close>

definition push_batch :: "'w PotreeWriter_ops \<Rightarrow> 'w convert_state \<Rightarrow> 64 word \<Rightarrow> 'w convert_state" where
  "push_batch W st n =
     (let st1 = st\<lparr>pointsProcessed := pointsProcessed st + n,
                   pointsSinceLastProcessing := pointsSinceLastProcessing st + n\<rparr>;
          st2 = st1\<lparr>writer := add W n (writer st1), calls := calls st1 @ [Add n]\<rparr>;
          st3 = (if pointsSinceLastProcessing st2 \<ge> PROCESS_COUNT then
                   st2\<lparr>pointsSinceLastProcessing := pointsSinceLastProcessing st2 - PROCESS_COUNT,
                       writer := waitUntilProcessed W (processStore W (writer st2)),
                       calls := calls st2 @ [ProcessStore, WaitUntilProcessed]\<rparr>
                 else st2)
      in if needs_flush W (writer st3) then
           st3\<lparr>writer := flush W (writer st3), calls := calls st3 @ [Flush]\<rparr>
         else st3)"

text \<open>
  The inner loop \<^verbatim>\<open>while (true)\<close> over one reader: the list holds the sizes of the batches
  that successive calls of \<^verbatim>\<open>readPointBatch\<close> return, and a reader whose list is used up
  returns an empty batch. The loop ends at the first empty batch.
\<close>

fun read_source :: "'w PotreeWriter_ops \<Rightarrow> 'w convert_state \<Rightarrow> 64 word list \<Rightarrow> 'w convert_state" where
  "read_source W st [] = st"
| "read_source W st (n # ns) = (if n = 0 then st else read_source W (push_batch W st n) ns)"

definition read_sources :: "'w PotreeWriter_ops \<Rightarrow> 'w convert_state \<Rightarrow> 64 word list list \<Rightarrow> 'w convert_state" where
  "read_sources W st readers = foldl (read_source W) st readers"

definition finish :: "'w PotreeWriter_ops \<Rightarrow> 'w convert_state \<Rightarrow> 'w convert_state" where
  "finish W st = st\<lparr>writer := close W (flush W (writer st)), calls := calls st @ [Flush, Close]\<rparr>"

subsection \<open>A conversion run\<close>

text \<open>
  What \<^verbatim>\<open>convert\<close> uses from outside the sources, as parameters: the text of the
  attribute list, the constructor of \<^verbatim>\<open>Proj4Transform\<close>, the files that
  \<^verbatim>\<open>generatePage\<close> leaves (it copies the viewer template), the value of
  \<^verbatim>\<open>aabb.size.length()\<close> for the cubic bounding box of the run (\<^verbatim>\<open>AABB\<close> with
  \<^verbatim>\<open>makeCubic\<close> and \<^verbatim>\<open>Vector3\<close> are not among the sources), the rounding of the formats
  \<^verbatim>\<open>double\<close> and \<^verbatim>\<open>float\<close>, the construction of the writer, the batches a reader
  delivers, and the writer's member functions.
\<close>

record 'w collaborators =
  attributes_toString :: "PointAttribute list \<Rightarrow> string"
  Proj4Transform_init :: "string \<Rightarrow> string option"
  generatePage :: "PotreeConverter \<Rightarrow> filesystem \<Rightarrow> filesystem"
  root_diagonal :: "PotreeConverter \<Rightarrow> world \<Rightarrow> fp"
  round_double :: "real \<Rightarrow> fp"
  round_float :: "real \<Rightarrow> fp"
  PotreeWriter_new :: "PotreeConverter \<Rightarrow> SRSTransformHelper \<Rightarrow> world \<Rightarrow> 'w"
  readPointBatch_counts :: "PointReader \<Rightarrow> world \<Rightarrow> 64 word list"
  writer_ops :: "'w PotreeWriter_ops"

text \<open>
  The spacing of the run: \<^verbatim>\<open>if (diagonalFraction != 0) spacing = (float)(aabb.size.length() / diagonalFraction)\<close>.
  The length is a \<^verbatim>\<open>double\<close>, the \<^verbatim>\<open>int\<close> is converted to \<^verbatim>\<open>double\<close> for the division,
  and the quotient is narrowed to the \<^verbatim>\<open>float\<close> member.
\<close>

definition convert_spacing :: "'w collaborators \<Rightarrow> PotreeConverter \<Rightarrow> world \<Rightarrow> PotreeConverter" where
  "convert_spacing env this w =
     (if diagonalFraction this \<noteq> 0 then
        this\<lparr>spacing := fp_narrow (round_float env)
                            (fp_div_int (round_double env) (root_diagonal env this w)
                               (diagonalFraction this))\<rparr>
      else this)"

text \<open>The batches of the readers created for a list of sources, source by source.\<close>

definition source_batches :: "'w collaborators \<Rightarrow> PotreeConverter \<Rightarrow> world \<Rightarrow> path list \<Rightarrow> 64 word list list" where
  "source_batches env this w srcs =
     map (\<lambda>source. readPointBatch_counts env
                      (the (createPointReader this source (pointAttributes this))) w) srcs"

text \<open>
  \<^verbatim>\<open>convert\<close>: first \<^verbatim>\<open>prepare\<close>; then the readers are created a first time to count the
  points, which fails on a null reader; then the transformation, the spacing, the page,
  the writer, the loops over the sources, and the final flush and close.
\<close>

definition convert ::
  "'w collaborators \<Rightarrow> PotreeConverter \<Rightarrow> world \<Rightarrow> (error + 'w convert_state) \<times> world" where
  "convert env this w =
     (case prepare (attributes_toString env) this w of
        (Inl e, w1) \<Rightarrow> (Inl e, w1)
      | (Inr this1, w1) \<Rightarrow>
          (case filter (\<lambda>source. createPointReader this1 source (pointAttributes this1) = None)
                  (sources this1) of
             source # _ \<Rightarrow> (Inl (null_reader source), w1)
           | [] \<Rightarrow>
               (case get_transformation_helper (Proj4Transform_init env) (sourceProjection this1) w1 of
                  (transformation, w2) \<Rightarrow>
                    (let this2 = convert_spacing env this1 w2;
                         w3 = (if length (pageName this2) > 0
                               then w2\<lparr>files := generatePage env this2 (files w2)\<rparr> else w2);
                         this3 = (if length (pageName this2) > 0
                                  then this2\<lparr>workDir := workDir this2 @ ''/pointclouds/'' @ pageName this2\<rparr>
                                  else this2);
                         wr = PotreeWriter_new env this3 transformation w3;
                         st = read_sources (writer_ops env) (convert_start wr)
                                (source_batches env this3 w3 (sources this3))
                     in (Inr (finish (writer_ops env) st), w3)))))"

section \<open>Notions used in the statements\<close>

text \<open>The files that one configured source contributes, and the sources that contribute none
  because they are neither a directory nor a regular file.\<close>

definition source_files :: "filesystem \<Rightarrow> path \<Rightarrow> path list" where
  "source_files fs source =
     (if is_directory fs source then
        filter (\<lambda>filepath. is_regular_file fs filepath \<and> recognised_in_directory filepath)
          (directory_entries fs source)
      else if is_regular_file fs source then [source]
      else [])"

definition unusable :: "filesystem \<Rightarrow> path \<Rightarrow> bool" where
  "unusable fs source = (\<not> is_directory fs source \<and> \<not> is_regular_file fs source)"

text \<open>The extensions for which \<^verbatim>\<open>createPointReader\<close> has a reader.\<close>

definition known_extension :: "path \<Rightarrow> bool" where
  "known_extension p =
     (iEndsWith p ''.las'' \<or> iEndsWith p ''.laz'' \<or> iEndsWith p ''.ptx'' \<or> iEndsWith p ''.ply'' \<or>
      iEndsWith p ''.xyz'' \<or> iEndsWith p ''.txt'' \<or> iEndsWith p ''.pts'' \<or> iEndsWith p ''.bin'')"

text \<open>The batches that reach the writer, and the number of processings in a record of calls.\<close>

definition pushed :: "64 word list list \<Rightarrow> 64 word list" where
  "pushed readers = concat (map (takeWhile (\<lambda>n. n \<noteq> 0)) readers)"

definition processings :: "writer_call list \<Rightarrow> nat" where
  "processings cs = length (filter (\<lambda>c. c = ProcessStore) cs)"

text \<open>
  The spec's wording of the ingest cadence, read on a record of calls: the number of points
  queued since the last processing starts at \<open>q\<close>, grows with every batch added and falls
  back to nothing at a processing.
\<close>

fun queued_since_last_processing :: "nat \<Rightarrow> writer_call list \<Rightarrow> nat" where
  "queued_since_last_processing q [] = q"
| "queued_since_last_processing q (Add n # cs) = queued_since_last_processing (q + unat n) cs"
| "queued_since_last_processing q (ProcessStore # cs) = queued_since_last_processing 0 cs"
| "queued_since_last_processing q (c # cs) = queued_since_last_processing q cs"

text \<open>
  In these words, the writer processes exactly when that number has reached the threshold:
  after every batch added, \<^verbatim>\<open>processStore\<close> and \<^verbatim>\<open>waitUntilProcessed\<close> come next if and only
  if the points queued since the last processing are at least \<open>threshold\<close>.
\<close>

fun processes_exactly_when_queued :: "nat \<Rightarrow> nat \<Rightarrow> writer_call list \<Rightarrow> bool" where
  "processes_exactly_when_queued threshold q [] = True"
| "processes_exactly_when_queued threshold q (Add n # cs) =
     (((threshold \<le> q + unat n) = (take 2 cs = [ProcessStore, WaitUntilProcessed]))
      \<and> processes_exactly_when_queued threshold (q + unat n) cs)"
| "processes_exactly_when_queued threshold q (ProcessStore # cs) =
     processes_exactly_when_queued threshold 0 cs"
| "processes_exactly_when_queued threshold q (c # cs) =
     processes_exactly_when_queued threshold q cs"

subsection \<open>Concrete inputs for running the model\<close>

definition null_writer :: "unit PotreeWriter_ops" where
  "null_writer = \<lparr>add = (\<lambda>_ w. w), processStore = id, waitUntilProcessed = id,
                  needs_flush = (\<lambda>_. False), flush = id, close = id\<rparr>"

definition example_converter :: "StoreOption \<Rightarrow> PotreeConverter" where
  "example_converter option =
     \<lparr>workDir = ''out'', sources = [''in'', ''missing.las'', ''scan.pts''], storeOption = option,
      outputAttributes = [''RGB'', ''INTENSITY''], pointAttributes = [], format = ''xyzi'',
      colorRange = [0, 255], intensityRange = [0, 65535], aabb = AABB (0, 0, 0) (1, 1, 1),
      scale = 1, sourceProjection = None, pageName = [], diagonalFraction = 200,
      spacing = Finite 0\<rparr>"

definition example_world :: world where
  "example_world =
     \<lparr>files = [(''out'', directory), (''out/r.json'', regular), (''out/data'', directory),
               (''out/data/r.bin'', regular), (''in'', directory), (''in/a.las'', regular),
               (''in/notes.doc'', regular), (''scan.pts'', regular)],
      cout = [], cerr = []\<rparr>"

definition example_collaborators :: "unit collaborators" where
  "example_collaborators =
     \<lparr>attributes_toString = (\<lambda>attrs. []), Proj4Transform_init = (\<lambda>projection. None),
      generatePage = (\<lambda>this fs. fs), root_diagonal = (\<lambda>this w. Finite 100),
      round_double = Finite, round_float = Finite,
      PotreeWriter_new = (\<lambda>this transformation w. ()),
      readPointBatch_counts =
        (\<lambda>reader w. case reader of LASPointReader p attrs \<Rightarrow> [3, 2, 0] | _ \<Rightarrow> [5]),
      writer_ops = null_writer\<rparr>"

section \<open>Properties of the terminal user interface\<close>

lemma chunk_at_take:
  "chunk_at str chunk_length chunk =
     take (unat chunk_length) (drop (chunk * unat chunk_length) str)"
  by (simp add: chunk_at_def Let_def)

lemma concat_chunks_take:
  "concat (map (\<lambda>i. take w (drop (i * w) str)) [0..<k]) = take (k * w) str"
proof (induction k)
  case 0
  show ?case by simp
next
  case (Suc k)
  have "take (k * w) str @ take w (drop (k * w) str) = take (k * w + w) str"
    by (simp add: take_add)
  with Suc show ?case by (simp add: add.commute)
qed

lemma ceiling_quotient_cover:
  fixes n w :: nat
  assumes w: "0 < w"
  shows "n \<le> nat \<lceil>real n / real w\<rceil> * w"
proof -
  let ?k = "nat \<lceil>real n / real w\<rceil>"
  have nonneg: "0 \<le> real n / real w"
    by (rule divide_nonneg_nonneg) (rule of_nat_0_le_iff)+
  then have "0 \<le> \<lceil>real n / real w\<rceil>" by (metis ceiling_mono ceiling_zero)
  then have "real ?k = real_of_int \<lceil>real n / real w\<rceil>" by (rule of_nat_nat)
  then have le: "real n / real w \<le> real ?k"
    using le_of_int_ceiling [of "real n / real w"] by simp
  have "real n = (real n / real w) * real w" using w by simp
  also have "\<dots> \<le> real ?k * real w"
    using le by (rule mult_right_mono) (rule of_nat_0_le_iff)
  also have "\<dots> = real (?k * w)" by (rule of_nat_mult [symmetric])
  finally show ?thesis by (simp only: of_nat_le_iff)
qed

lemma num_chunks_cover:
  assumes "chunk_length \<noteq> 0"
  shows "n \<le> num_chunks n chunk_length * unat chunk_length"
  unfolding num_chunks_def
  by (rule ceiling_quotient_cover) (use assms in \<open>simp add: unat_gt_0\<close>)

text \<open>
  C9. For every content string (of a size below \<open>2^53\<close>) and every positive line width,
  the lines that \<^verbatim>\<open>TerminalMultilineLabel::render\<close> prints are defined, each is at most
  one line width long, and put together in order they are the content again.
\<close>

theorem render_chunks_roundtrip:
  assumes "0 < line_width label" and "length (content label) < 2 ^ 53"
  shows "\<exists>lines. render_lines label = Some lines
           \<and> concat lines = content label
           \<and> (\<forall>l \<in> set lines. length l \<le> unat (line_width label))"
proof -
  let ?w = "line_width label" and ?s = "content label"
  let ?lines = "map (chunk_at ?s ?w) [0..<num_chunks (length ?s) ?w]"
  from assms(1) have nz: "?w \<noteq> 0" by auto
  then have def: "render_lines label = Some ?lines"
    by (simp add: render_lines_def chunk_string_def)
  have "concat ?lines = take (num_chunks (length ?s) ?w * unat ?w) ?s"
    using concat_chunks_take [of "unat ?w" ?s "num_chunks (length ?s) ?w"]
    by (simp add: chunk_at_take [abs_def])
  also have "\<dots> = ?s" using num_chunks_cover [OF nz, of "length ?s"] by simp
  finally have cat: "concat ?lines = ?s" .
  have len: "\<forall>l \<in> set ?lines. length l \<le> unat ?w"
    by (auto simp: chunk_at_take)
  from def cat len show ?thesis by blast
qed

theorem render_chunks_roundtrip_witness:
  "\<exists>lines. render_lines \<lparr>content = ''hello world'', color = [], line_width = 4\<rparr> = Some lines
      \<and> concat lines = ''hello world''
      \<and> (\<forall>l \<in> set lines. length l \<le> 4)"
proof -
  let ?label = "\<lparr>content = ''hello world'', color = [], line_width = 4\<rparr>"
  have h1: "0 < line_width ?label" by simp
  have h2: "length (content ?label) < 2 ^ 53" by simp
  from render_chunks_roundtrip [OF h1 h2] show ?thesis by simp
qed

lemma render_example:
  "render_lines \<lparr>content = ''hello world'', color = [], line_width = 4\<rparr>
     = Some [''hell'', ''o wo'', ''rld'']"
  "TerminalMultilineLabel_render False \<lparr>content = ''hello world'', color = [], line_width = 4\<rparr>
     = Some (''hell'' @ [CHR 0x0A] @ ''o wo'' @ [CHR 0x0A] @ ''rld'' @ [CHR 0x0A])"
  by (simp_all add: TerminalMultilineLabel_render_def render_lines_def chunk_string_def
        num_chunks_def chunk_at_def upt_conv_Cons)

lemma rounds_between_integers_exact: "rounds_between_integers Finite"
  by (simp add: rounds_between_integers_def)

lemma rounds_between_integersD:
  assumes "rounds_between_integers rnd"
    and "- 16777216 \<le> a" and "real_of_int a \<le> x" and "x \<le> real_of_int b" and "b \<le> 16777216"
  obtains y where "rnd x = Finite y" and "real_of_int a \<le> y" and "y \<le> real_of_int b"
  using assms unfolding rounds_between_integers_def by blast

lemma fp_to_int_bounded:
  assumes "- 2147483648 \<le> v" and "v \<le> 2147483647"
  shows "\<exists>k. fp_to_int (Finite v) = Some k"
proof -
  let ?t = "if 0 \<le> v then \<lfloor>v\<rfloor> else \<lceil>v\<rceil>"
  have "- 2147483648 \<le> ?t"
  proof (cases "0 \<le> v")
    case True
    then have "0 \<le> \<lfloor>v\<rfloor>" by simp
    with True show ?thesis by simp
  next
    case False
    have "(- 2147483648 :: int) \<le> \<lceil>v\<rceil>"
      using assms(1) by (simp add: le_ceiling_iff)
    with False show ?thesis by simp
  qed
  moreover have "?t \<le> 2147483647"
  proof (cases "0 \<le> v")
    case True
    have "\<lfloor>v\<rfloor> \<le> (2147483647 :: int)"
      using assms(2) by (simp add: floor_le_iff)
    with True show ?thesis by simp
  next
    case False
    then have "\<lceil>v\<rceil> \<le> 0" by (simp add: ceiling_le_iff)
    with False show ?thesis by simp
  qed
  ultimately show ?thesis by (simp add: fp_to_int_def Let_def)
qed

text \<open>For a progress of magnitude up to \<open>2^20\<close> the product is finite and converts.\<close>

lemma scaled_progress_converts:
  assumes r: "rounds_between_integers rnd" and lo: "- 1048576 \<le> p" and hi: "p \<le> 1048576"
  shows "\<exists>k. fp_to_int (scaled_progress rnd (Finite p)) = Some k"
proof -
  obtain y1 where y1: "rnd (1 - p) = Finite y1" "real_of_int (- 1048575) \<le> y1" "y1 \<le> real_of_int 1048577"
    using lo hi
    by (auto intro: rounds_between_integersD [OF r, where a = "- 1048575" and x = "1 - p" and b = 1048577])
  obtain y2 where y2: "rnd (y1 * 8) = Finite y2" "real_of_int (- 8388600) \<le> y2" "y2 \<le> real_of_int 8388616"
    using y1(2,3)
    by (auto intro: rounds_between_integersD [OF r, where a = "- 8388600" and x = "y1 * 8" and b = 8388616])
  have "scaled_progress rnd (Finite p) = Finite y2"
    by (simp add: scaled_progress_def y1(1) y2(1))
  moreover have "\<exists>k. fp_to_int (Finite y2) = Some k"
    using y2(2,3) by (intro fp_to_int_bounded) simp_all
  ultimately show ?thesis by simp
qed

lemma get_progress_glyph_NaN: "get_progress_glyph rnd NaN = None"
  by (simp add: get_progress_glyph_def progress_step_def scaled_progress_def fp_to_int_def)

text \<open>
  C10, as amended. Whenever the conversion of \<^verbatim>\<open>(1.f - progress) * 8\<close> to \<^verbatim>\<open>int\<close> is
  defined, with result \<open>k\<close>, the index used by \<^verbatim>\<open>get_progress_glyph\<close> is \<open>k\<close> clamped into
  the range from 0 to 8, the access to the nine glyphs is in bounds and that glyph of the
  table is returned. The conversion is defined for every finite progress of magnitude up
  to \<open>2^20\<close>, so also for values below 0 and above 1, under any rounding that keeps a value
  between the integers around it.
\<close>

theorem get_progress_glyph_clamped:
  "(fp_to_int (scaled_progress rnd progress) = Some k \<longrightarrow>
      progress_step rnd progress = Some (max 0 (min 8 k))
      \<and> 0 \<le> max 0 (min 8 k) \<and> max 0 (min 8 k) \<le> 8
      \<and> length Glyphs = 9
      \<and> get_progress_glyph rnd progress = Some (Glyphs ! nat (max 0 (min 8 k))))
   \<and> (rounds_between_integers rnd \<and> - 1048576 \<le> p \<and> p \<le> 1048576 \<longrightarrow>
      (\<exists>k'. fp_to_int (scaled_progress rnd (Finite p)) = Some k'))"
proof (intro conjI impI)
  assume k: "fp_to_int (scaled_progress rnd progress) = Some k"
  then show "progress_step rnd progress = Some (max 0 (min 8 k))"
    by (simp add: progress_step_def)
  show "0 \<le> max 0 (min 8 k)" "max 0 (min 8 k) \<le> 8" by simp_all
  show len: "length Glyphs = 9" by (simp add: Glyphs_def)
  from k show "get_progress_glyph rnd progress = Some (Glyphs ! nat (max 0 (min 8 k)))"
    by (simp add: get_progress_glyph_def progress_step_def array_at_def len)
next
  assume "rounds_between_integers rnd \<and> - 1048576 \<le> p \<and> p \<le> 1048576"
  then show "\<exists>k'. fp_to_int (scaled_progress rnd (Finite p)) = Some k'"
    by (simp add: scaled_progress_converts)
qed

text \<open>A progress of 2, above 1: the product is \<open>-8\<close>, the index 0, the glyph the full block.\<close>

theorem get_progress_glyph_clamped_witness:
  "fp_to_int (scaled_progress Finite (Finite 2)) = Some (- 8)
   \<and> rounds_between_integers Finite
   \<and> progress_step Finite (Finite 2) = Some 0
   \<and> get_progress_glyph Finite (Finite 2) = Some (Glyphs ! 0)"
proof -
  have h: "fp_to_int (scaled_progress Finite (Finite 2)) = Some (- 8)"
    by (simp add: scaled_progress_def fp_to_int_def)
  from get_progress_glyph_clamped
         [where rnd = Finite and progress = "Finite 2" and k = "- 8" and p = 2] h
  show ?thesis by (simp add: rounds_between_integers_exact)
qed

text \<open>
  A progress that is not a number, as the quotient of a counter by a maximum of zero is,
  and a finite progress of \<open>-10^10\<close>: the product does not convert to \<^verbatim>\<open>int\<close>, the index
  is undefined and no glyph is returned.
\<close>

theorem get_progress_glyph_undefined:
  "fp_to_int (scaled_progress Finite NaN) = None
   \<and> get_progress_glyph Finite NaN = None
   \<and> fp_to_int (scaled_progress Finite (Finite (- 10000000000))) = None
   \<and> get_progress_glyph Finite (Finite (- 10000000000)) = None"
  by (simp add: get_progress_glyph_def progress_step_def scaled_progress_def fp_to_int_def)

lemma get_progress_glyph_examples:
  "get_progress_glyph Finite (Finite 1) = Some [CHR 0xE2, CHR 0x96, CHR 0x88]"
  "get_progress_glyph Finite (Finite (1/2)) = Some [CHR 0xE2, CHR 0x96, CHR 0x8C]"
  "get_progress_glyph Finite (Finite 0) = Some '' ''"
  "get_progress_glyph Finite (Finite (- 3)) = Some '' ''"
  "get_progress_glyph Finite PlusInfinity = None"
  by (simp_all add: get_progress_glyph_def progress_step_def scaled_progress_def fp_to_int_def
      array_at_def Glyphs_def)

section \<open>Properties of the converter\<close>

subsection \<open>Choice of the coordinate transformation\<close>

lemma c_str_no_NUL: "CHR 0x00 \<notin> set s \<Longrightarrow> c_str s = s"
  unfolding c_str_def by (rule takeWhile_eq_all_conv [THEN iffD2]) auto

lemma c_str_WGS84: "c_str WGS84 = WGS84"
  by (simp add: c_str_def WGS84_def)

text \<open>For any string, with the comparison that \<^verbatim>\<open>strcmp\<close> makes.\<close>

lemma get_transformation_helper_cases:
  "fst (get_transformation_helper init projection w) =
     (case projection of
        None \<Rightarrow> IdentityTransform
      | Some p \<Rightarrow>
          if c_str p = WGS84 \<or> init p \<noteq> None then IdentityTransform else Proj4Transform p)"
  by (auto simp: get_transformation_helper_def strcmp_is_0_def c_str_WGS84
      split: option.splits)

text \<open>
  C4. For a source projection that is text (no NUL character in it, as for every string
  that comes from the command line), the transformation of a run is the identity exactly
  when the projection is absent, equals the WGS84 description, or the set-up of the
  projection-based transformation fails; in every other case it is the projection-based
  transformation of that projection. When the set-up fails, the function still returns,
  and two lines of warning have gone to \<^verbatim>\<open>std::cerr\<close>.
\<close>

theorem identity_transform_cases:
  assumes "\<forall>p. projection = Some p \<longrightarrow> CHR 0x00 \<notin> set p"
  shows "(fst (get_transformation_helper init projection w) = IdentityTransform
          \<longleftrightarrow> projection = None \<or> projection = Some WGS84
               \<or> (\<exists>p. projection = Some p \<and> init p \<noteq> None))
       \<and> (fst (get_transformation_helper init projection w) \<noteq> IdentityTransform
          \<longrightarrow> (\<exists>p. projection = Some p
                 \<and> fst (get_transformation_helper init projection w) = Proj4Transform p))
       \<and> (\<forall>p what. projection = Some p \<and> p \<noteq> WGS84 \<and> init p = Some what
          \<longrightarrow> cerr (snd (get_transformation_helper init projection w))
                = cerr w @ [''Error while setting up coordinate transformation:'' @ [CHR 0x0A] @ what,
                            ''Skipping point transformation...''])"
proof (cases projection)
  case None
  then show ?thesis by (simp add: get_transformation_helper_def)
next
  case (Some p)
  with assms have "c_str p = p" by (simp add: c_str_no_NUL)
  with Some show ?thesis
    by (auto simp: get_transformation_helper_def strcmp_is_0_def c_str_WGS84 print_cerr_def
        split: option.splits)
qed

text \<open>A projection whose set-up fails: the identity is used and the warning is printed.\<close>

theorem identity_transform_cases_witness:
  "fst (get_transformation_helper (\<lambda>projection. Some ''unknown projection id'')
          (Some ''+proj=nowhere'') example_world) = IdentityTransform
   \<and> cerr (snd (get_transformation_helper (\<lambda>projection. Some ''unknown projection id'')
          (Some ''+proj=nowhere'') example_world))
       = cerr example_world @
           [''Error while setting up coordinate transformation:'' @ [CHR 0x0A] @ ''unknown projection id'',
            ''Skipping point transformation...'']"
proof -
  have h: "\<forall>p. Some ''+proj=nowhere'' = Some p \<longrightarrow> CHR 0x00 \<notin> set p" by simp
  have ne: "''+proj=nowhere'' \<noteq> WGS84" by (simp add: WGS84_def)
  from identity_transform_cases [OF h, of "\<lambda>projection. Some ''unknown projection id''" example_world] ne
  show ?thesis by simp
qed

lemma get_transformation_helper_examples:
  "fst (get_transformation_helper (\<lambda>projection. None) (Some ''+proj=utm +zone=32'') w)
     = Proj4Transform ''+proj=utm +zone=32''"
  "fst (get_transformation_helper init (Some WGS84) w) = IdentityTransform"
  "fst (get_transformation_helper init None w) = IdentityTransform"
  by (simp_all add: get_transformation_helper_def strcmp_is_0_def c_str_def WGS84_def)

subsection \<open>The output directory\<close>

lemma verifyWorkDir_abort:
  assumes "fs_exists (files w) workDir'" and "fs_exists (files w) (workDir' @ ''/r.json'')"
  shows "verifyWorkDir workDir' ABORT_IF_EXISTS w = (Inl output_not_empty, w)"
  using assms by (simp add: verifyWorkDir_def)

text \<open>
  C3. When the store option is \<^verbatim>\<open>ABORT_IF_EXISTS\<close> and \<^verbatim>\<open>r.json\<close> exists in the output
  directory, the check of the output directory throws, and so do \<^verbatim>\<open>prepare\<close> and the whole
  run, with the file system and the output streams as they were at the start: no file has
  been changed or removed, no reader or writer has been created and no batch has been read.
\<close>

theorem abort_if_exists_fails_first:
  assumes "storeOption this = ABORT_IF_EXISTS"
    and "fs_exists (files w) (workDir this)"
    and "fs_exists (files w) (workDir this @ ''/r.json'')"
  shows "verifyWorkDir (workDir this) (storeOption this) w = (Inl output_not_empty, w)
       \<and> prepare toString this w = (Inl output_not_empty, w)
       \<and> convert env this w = (Inl output_not_empty, w)"
proof -
  have v: "verifyWorkDir (workDir this) (storeOption this) w = (Inl output_not_empty, w)"
    using assms by (simp add: verifyWorkDir_abort)
  then have p: "prepare toString this w = (Inl output_not_empty, w)" for toString
    by (simp add: prepare_def)
  then have "convert env this w = (Inl output_not_empty, w)"
    by (simp add: convert_def)
  with v p show ?thesis by simp
qed

theorem abort_if_exists_fails_first_witness:
  "verifyWorkDir (workDir (example_converter ABORT_IF_EXISTS))
       (storeOption (example_converter ABORT_IF_EXISTS)) example_world
     = (Inl output_not_empty, example_world)
   \<and> prepare (\<lambda>attrs. []) (example_converter ABORT_IF_EXISTS) example_world
     = (Inl output_not_empty, example_world)
   \<and> convert example_collaborators (example_converter ABORT_IF_EXISTS) example_world
     = (Inl output_not_empty, example_world)"
proof -
  have h1: "storeOption (example_converter ABORT_IF_EXISTS) = ABORT_IF_EXISTS"
    by (simp add: example_converter_def)
  have h2: "fs_exists (files example_world) (workDir (example_converter ABORT_IF_EXISTS))"
    by (simp add: example_converter_def example_world_def fs_exists_def)
  have h3: "fs_exists (files example_world) (workDir (example_converter ABORT_IF_EXISTS) @ ''/r.json'')"
    by (simp add: example_converter_def example_world_def fs_exists_def)
  show ?thesis by (rule abort_if_exists_fails_first [OF h1 h2 h3])
qed

text \<open>
  An output directory that does not exist is created with its missing ancestors; the run
  ends with an error when the path is empty or lies below a regular file.
\<close>

lemma create_directories_examples:
  "create_directories [(''/data'', directory)] ''/data/out/x''
     = Inr [(''/data'', directory), (''/data/out'', directory), (''/data/out/x'', directory)]"
  "create_directories [(''scan.pts'', regular)] ''scan.pts/out'' = Inl (filesystem_error ''scan.pts/out'')"
  "create_directories fs [] = Inl (filesystem_error [])"
  "verifyWorkDir ''scan.pts/out'' OVERWRITE example_world
     = (Inl (filesystem_error ''scan.pts/out''),
        print_cout ''Output directory does not exist, creating it...'' example_world)"
  by (simp_all add: create_directories_def create_directory_def ancestors_def upt_conv_Cons
      verifyWorkDir_def fs_exists_def example_world_def print_cout_def)

lemma fold_remove_all:
  "fold (\<lambda>entry fs. remove_all fs entry) es fs = filter (\<lambda>(q, t). \<not> (\<exists>e \<in> set es. is_below e q)) fs"
proof (induction es arbitrary: fs)
  case Nil
  show ?case by simp
next
  case (Cons e es)
  have "fold (\<lambda>entry fs. remove_all fs entry) (e # es) fs
          = filter (\<lambda>(q, t). \<not> (\<exists>e \<in> set es. is_below e q)) (remove_all fs e)"
    by (simp add: Cons.IH)
  also have "\<dots> = filter (\<lambda>(q, t). \<not> (\<exists>e' \<in> set (e # es). is_below e' q)) fs"
    unfolding remove_all_def filter_filter by (rule filter_cong) auto
  finally show ?case .
qed

lemma is_below_refl: "is_below p p"
  by (simp add: is_below_def)

lemma directory_entries_after_removal:
  "directory_entries
     (fold (\<lambda>entry fs. remove_all fs entry) (directory_entries fs dir) fs) dir = []"
proof -
  have "\<not> (is_entry_of dir q \<and> \<not> (\<exists>e \<in> set (directory_entries fs dir). is_below e q))"
    if "(q, t) \<in> set fs" for q t
  proof
    assume a: "is_entry_of dir q \<and> \<not> (\<exists>e \<in> set (directory_entries fs dir). is_below e q)"
    with that have "q \<in> set (directory_entries fs dir)"
      by (force simp: directory_entries_def)
    with a show False using is_below_refl by blast
  qed
  then show ?thesis
    unfolding fold_remove_all directory_entries_def
    by (auto simp: filter_empty_conv)
qed

lemma map_of_filter_keys:
  "map_of (filter (\<lambda>(q, t). P q) fs) q = (if P q then map_of fs q else None)"
  by (induction fs) auto

lemma verifyWorkDir_overwrite:
  assumes "is_directory (files w) workDir'"
  shows "verifyWorkDir workDir' OVERWRITE w =
           (Inr (),
            w\<lparr>files := filter (\<lambda>(q, t). \<not> (\<exists>e \<in> set (directory_entries (files w) workDir'). is_below e q)) (files w),
              cout := cout w @ [''Output directory not empty, removing existing files...'']\<rparr>)"
  using assms
  by (simp add: verifyWorkDir_def fs_exists_def is_directory_def print_cout_def fold_remove_all)

subsection \<open>The list of sources\<close>

lemma foldl_add_source:
  "foldl (add_source fs) (sourceFiles, out) srcs =
     (sourceFiles @ concat (map (source_files fs) srcs),
      out @ map cant_open (filter (unusable fs) srcs))"
  by (induction srcs arbitrary: sourceFiles out)
     (simp_all add: add_source_def source_files_def unusable_def)

lemma collect_sources_eq:
  "collect_sources fs srcs =
     (concat (map (source_files fs) srcs), map cant_open (filter (unusable fs) srcs))"
  by (simp add: collect_sources_def foldl_add_source)

lemma source_files_exist: "p \<in> set (source_files fs source) \<Longrightarrow> fs_exists fs p"
  by (auto simp: source_files_def fs_exists_def is_regular_file_def split: if_splits)

lemma erase_missing_collected:
  "erase_missing fs (concat (map (source_files fs) srcs)) = (concat (map (source_files fs) srcs), [])"
proof -
  have "\<forall>p \<in> set (concat (map (source_files fs) srcs)). fs_exists fs p"
    by (auto dest: source_files_exist)
  then show ?thesis
    by (simp add: erase_missing_def filter_id_conv filter_empty_conv)
qed

lemma prepare_after_verifyWorkDir:
  assumes "verifyWorkDir (workDir this) (storeOption this) w = (Inr (), w1)"
  shows "prepare toString this w =
           (let attrs = foldl add_output_attribute (pointAttributes this @ [POSITION_CARTESIAN])
                          (outputAttributes this)
            in (Inr (this\<lparr>sources := concat (map (source_files (files w1)) (sources this)),
                          pointAttributes := attrs\<rparr>),
                w1\<lparr>cout := cout w1 @ map cant_open (filter (unusable (files w1)) (sources this))
                              @ [''Writing the following point attributes: '' @ toString attrs]\<rparr>))"
  using assms by (simp add: prepare_def collect_sources_eq erase_missing_collected Let_def)

text \<open>
  C5. When the output directory exists as a directory and the store option is
  \<^verbatim>\<open>OVERWRITE\<close>, the preparation succeeds and leaves the output directory without any
  entry: \<^verbatim>\<open>r.json\<close> is gone, every former entry is gone with all that was below it, and
  every path that is not a former entry or below one is as before.
\<close>

theorem overwrite_clears_output_directory:
  assumes "storeOption this = OVERWRITE" and "is_directory (files w) (workDir this)"
  shows "\<exists>this' w'. prepare toString this w = (Inr this', w')
           \<and> directory_entries (files w') (workDir this) = []
           \<and> \<not> fs_exists (files w') (workDir this @ ''/r.json'')
           \<and> (\<forall>e \<in> set (directory_entries (files w) (workDir this)).
                 \<forall>q. is_below e q \<longrightarrow> \<not> fs_exists (files w') q)
           \<and> (\<forall>q. \<not> (\<exists>e \<in> set (directory_entries (files w) (workDir this)). is_below e q)
                 \<longrightarrow> map_of (files w') q = map_of (files w) q)"
proof -
  let ?dir = "workDir this"
  let ?es = "directory_entries (files w) ?dir"
  let ?fs' = "filter (\<lambda>(q, t). \<not> (\<exists>e \<in> set ?es. is_below e q)) (files w)"
  have "verifyWorkDir ?dir (storeOption this) w =
          (Inr (), w\<lparr>files := ?fs',
                      cout := cout w @ [''Output directory not empty, removing existing files...'']\<rparr>)"
    using assms by (simp add: verifyWorkDir_overwrite)
  from prepare_after_verifyWorkDir [OF this, of toString]
  obtain this' w' where p: "prepare toString this w = (Inr this', w')" and f: "files w' = ?fs'"
    by (simp add: Let_def)
  have gone: "\<not> fs_exists ?fs' q" if "e \<in> set ?es" "is_below e q" for e q
    using that by (auto simp: fs_exists_def map_of_filter_keys)
  have kept: "map_of ?fs' q = map_of (files w) q" if "\<not> (\<exists>e \<in> set ?es. is_below e q)" for q
    using that by (simp add: map_of_filter_keys)
  have empty: "directory_entries ?fs' ?dir = []"
    using directory_entries_after_removal [of "files w" ?dir] by (simp add: fold_remove_all)
  have root: "\<not> fs_exists ?fs' (?dir @ ''/r.json'')"
  proof (cases "fs_exists (files w) (?dir @ ''/r.json'')")
    case True
    then have "?dir @ ''/r.json'' \<in> fst ` set (files w)"
      by (simp add: fs_exists_def map_of_eq_None_iff)
    moreover have "is_entry_of ?dir (?dir @ ''/r.json'')"
      by (simp add: is_entry_of_def)
    ultimately have "?dir @ ''/r.json'' \<in> set ?es"
      by (simp add: directory_entries_def)
    then show ?thesis using gone is_below_refl by blast
  next
    case False
    then show ?thesis by (simp add: fs_exists_def map_of_filter_keys)
  qed
  from p f gone kept empty root show ?thesis by (intro exI [of _ this'] exI [of _ w']) simp
qed

text \<open>A populated output directory: after the preparation nothing is left in it, neither
  the manifest nor the node file below \<^verbatim>\<open>data\<close>, and an input file elsewhere is untouched.\<close>

theorem overwrite_clears_output_directory_witness:
  "\<exists>this' w'. prepare (\<lambda>attrs. []) (example_converter OVERWRITE) example_world = (Inr this', w')
      \<and> directory_entries (files w') ''out'' = []
      \<and> \<not> fs_exists (files w') ''out/r.json''
      \<and> \<not> fs_exists (files w') ''out/data/r.bin''
      \<and> map_of (files w') ''scan.pts'' = Some regular"
proof -
  let ?conv = "example_converter OVERWRITE"
  have h1: "storeOption ?conv = OVERWRITE"
    by (simp add: example_converter_def)
  have h2: "is_directory (files example_world) (workDir ?conv)"
    by (simp add: example_converter_def example_world_def is_directory_def)
  have es: "directory_entries (files example_world) (workDir ?conv) = [''out/r.json'', ''out/data'']"
    by (simp add: example_converter_def example_world_def directory_entries_def is_entry_of_def)
  have below: "is_below ''out/data'' ''out/data/r.bin''"
    by (simp add: is_below_def)
  have outside: "\<not> (\<exists>e \<in> set [''out/r.json'', ''out/data'']. is_below e ''scan.pts'')"
    by (simp add: is_below_def)
  have here: "map_of (files example_world) ''scan.pts'' = Some regular"
    by (simp add: example_world_def)
  from overwrite_clears_output_directory [OF h1 h2, of "\<lambda>attrs. []"]
  obtain this' w' where
    p: "prepare (\<lambda>attrs. []) ?conv example_world = (Inr this', w')"
    and e: "directory_entries (files w') (workDir ?conv) = []"
    and r: "\<not> fs_exists (files w') (workDir ?conv @ ''/r.json'')"
    and g: "\<forall>e \<in> set (directory_entries (files example_world) (workDir ?conv)).
              \<forall>q. is_below e q \<longrightarrow> \<not> fs_exists (files w') q"
    and k: "\<forall>q. \<not> (\<exists>e \<in> set (directory_entries (files example_world) (workDir ?conv)). is_below e q)
              \<longrightarrow> map_of (files w') q = map_of (files example_world) q"
    by blast
  from g es below have "\<not> fs_exists (files w') ''out/data/r.bin''" by simp
  moreover from k es outside here have "map_of (files w') ''scan.pts'' = Some regular" by simp
  moreover from e have "directory_entries (files w') ''out'' = []" by (simp add: example_converter_def)
  moreover from r have "\<not> fs_exists (files w') ''out/r.json''" by (simp add: example_converter_def)
  ultimately show ?thesis using p by blast
qed

lemma createPointReader_None:
  "(createPointReader this p attrs = None) = (\<not> known_extension p)"
  by (simp add: createPointReader_def known_extension_def Let_def)





lemma get_transformation_helper_files:
  "files (snd (get_transformation_helper init projection w)) = files w"
  by (simp add: get_transformation_helper_def print_cout_def print_cerr_def split: option.splits)




text \<open>
  A source that is a regular file without a known extension stays in the list as well, and
  ends the run at the null reader, whether or not another source is missing.
\<close>

lemma convert_null_reader:
  assumes p: "prepare (attributes_toString env) this w = (Inr this1, w1)"
    and s: "s \<in> set (sources this1)" "\<not> known_extension s"
  shows "\<exists>s'. \<not> known_extension s' \<and> convert env this w = (Inl (null_reader s'), w1)"
proof -
  let ?bad = "filter (\<lambda>source. createPointReader this1 source (pointAttributes this1) = None)
                (sources this1)"
  from s have "s \<in> set ?bad" by (simp add: createPointReader_None)
  then obtain s' rest where bad: "?bad = s' # rest" by (cases ?bad) auto
  then have "s' \<in> set ?bad" by simp
  then have "\<not> known_extension s'" by (simp add: createPointReader_None)
  moreover have "convert env this w = (Inl (null_reader s'), w1)"
    by (simp add: convert_def p bad)
  ultimately show ?thesis by blast
qed

lemma convert_null_reader_example:
  "fst (convert example_collaborators
          ((example_converter INCREMENTAL)\<lparr>sources := [''missing.las'', ''in/notes.doc'', ''scan.pts'']\<rparr>)
          example_world)
     = Inl (null_reader ''in/notes.doc'')"
  by (simp add: convert_def prepare_def verifyWorkDir_def collect_sources_def add_source_def
      erase_missing_def add_output_attribute_def example_converter_def example_world_def
      example_collaborators_def fs_exists_def is_directory_def is_regular_file_def
      createPointReader_def iEndsWith_def tolower_def print_cout_def)

lemma prepare_example:
  "prepare (\<lambda>attrs. []) (example_converter INCREMENTAL) example_world =
     (Inr ((example_converter INCREMENTAL)
             \<lparr>sources := [''in/a.las'', ''scan.pts''],
              pointAttributes := [POSITION_CARTESIAN, COLOR_PACKED, INTENSITY]\<rparr>),
      example_world
        \<lparr>cout := [''Appending to existing output directory...'', cant_open ''missing.las'',
                  ''Writing the following point attributes: '']\<rparr>)"
  by (simp add: prepare_def verifyWorkDir_def collect_sources_def add_source_def erase_missing_def
      add_output_attribute_def example_converter_def example_world_def fs_exists_def
      is_directory_def is_regular_file_def directory_entries_def is_entry_of_def
      recognised_in_directory_def iEndsWith_def tolower_def print_cout_def)

subsection \<open>The spacing at the root\<close>

text \<open>The step changes no other member of the converter.\<close>

lemma convert_spacing_other_members:
  "workDir (convert_spacing env this w) = workDir this"
  "sources (convert_spacing env this w) = sources this"
  "pointAttributes (convert_spacing env this w) = pointAttributes this"
  "pageName (convert_spacing env this w) = pageName this"
  "diagonalFraction (convert_spacing env this w) = diagonalFraction this"
  by (simp_all add: convert_spacing_def)

text \<open>
  C8. When \<^verbatim>\<open>diagonalFraction\<close> is zero, the step leaves the converter, and with it the
  configured spacing, unchanged. When it is not zero, the spacing becomes the quotient of
  the length of the diagonal of the cubic root bounding box by \<^verbatim>\<open>diagonalFraction\<close>, as
  the program computes it: divided in \<^verbatim>\<open>double\<close> and narrowed to \<^verbatim>\<open>float\<close>. That is
  the exact quotient whenever the exact quotient is a value of both formats.
\<close>

theorem convert_spacing_cases:
  "(diagonalFraction this = 0 \<longrightarrow>
      convert_spacing env this w = this \<and> spacing (convert_spacing env this w) = spacing this)
   \<and> (diagonalFraction this \<noteq> 0 \<longrightarrow>
      spacing (convert_spacing env this w)
        = fp_narrow (round_float env)
            (fp_div_int (round_double env) (root_diagonal env this w) (diagonalFraction this)))
   \<and> (diagonalFraction this \<noteq> 0
      \<and> root_diagonal env this w = Finite d
      \<and> round_double env (d / real_of_int (diagonalFraction this))
          = Finite (d / real_of_int (diagonalFraction this))
      \<and> round_float env (d / real_of_int (diagonalFraction this))
          = Finite (d / real_of_int (diagonalFraction this)) \<longrightarrow>
      spacing (convert_spacing env this w) = Finite (d / real_of_int (diagonalFraction this)))"
  by (simp add: convert_spacing_def fp_div_int_def fp_narrow_def)

text \<open>
  A diagonal of length 100 with a fraction of 200 gives a spacing of one half; with a
  fraction of zero the configured spacing of 3 stays.
\<close>

theorem convert_spacing_cases_witness:
  "spacing (convert_spacing example_collaborators (example_converter OVERWRITE) example_world)
     = Finite (1 / 2)
   \<and> convert_spacing example_collaborators
       ((example_converter OVERWRITE)\<lparr>diagonalFraction := 0, spacing := Finite 3\<rparr>) example_world
     = (example_converter OVERWRITE)\<lparr>diagonalFraction := 0, spacing := Finite 3\<rparr>"
proof -
  let ?env = "example_collaborators"
  let ?a = "example_converter OVERWRITE"
  let ?b = "(example_converter OVERWRITE)\<lparr>diagonalFraction := 0, spacing := Finite 3\<rparr>"
  have a1: "diagonalFraction ?a \<noteq> 0" and a2: "diagonalFraction ?a = 200"
    by (simp_all add: example_converter_def)
  have a3: "root_diagonal ?env ?a example_world = Finite 100"
    and a4: "round_double ?env = Finite" and a5: "round_float ?env = Finite"
    by (simp_all add: example_collaborators_def)
  have b1: "diagonalFraction ?b = 0" by simp
  have "spacing (convert_spacing ?env ?a example_world)
          = Finite (100 / real_of_int (diagonalFraction ?a))"
    by (rule convert_spacing_cases
          [where this = ?a and env = ?env and w = example_world and d = 100,
           THEN conjunct2, THEN conjunct2, THEN mp])
       (simp add: a1 a3 a4 a5)
  then have a: "spacing (convert_spacing ?env ?a example_world) = Finite (1 / 2)"
    by (simp add: a2)
  have b: "convert_spacing ?env ?b example_world = ?b"
    by (rule convert_spacing_cases
          [where this = ?b and env = ?env and w = example_world,
           THEN conjunct1, THEN mp, THEN conjunct1])
       (rule b1)
  from a b show ?thesis by simp
qed

subsection \<open>The reader for \<^verbatim>\<open>.pts\<close> files\<close>

lemma createPointReader_pts:
  assumes "iEndsWith p ''.pts''"
    and "\<not> iEndsWith p ''.las''" "\<not> iEndsWith p ''.laz''" "\<not> iEndsWith p ''.ptx''"
    and "\<not> iEndsWith p ''.ply''" "\<not> iEndsWith p ''.xyz''" "\<not> iEndsWith p ''.txt''"
  shows "createPointReader this p attrs =
           Some (XYZPointReader p (format this) (colorRange this)
                  (if intensityRange this = [] then [- 2048, 2047] else []))"
  using assms by (simp add: createPointReader_def)

lemma createPointReader_xyz:
  assumes "iEndsWith p ''.xyz''"
    and "\<not> iEndsWith p ''.las''" "\<not> iEndsWith p ''.laz''" "\<not> iEndsWith p ''.ptx''"
    and "\<not> iEndsWith p ''.ply''"
  shows "createPointReader this p attrs =
           Some (XYZPointReader p (format this) (colorRange this) (intensityRange this))"
  using assms by (simp add: createPointReader_def)

text \<open>
  C7. With an intensity range of 0 to 65535 configured on the converter, the reader created
  for \<^verbatim>\<open>scan.pts\<close> is handed an empty intensity range, whereas the reader created for
  \<^verbatim>\<open>scan.xyz\<close> by the same converter is handed the configured range.
\<close>

theorem pts_reader_loses_configured_intensityRange:
  "intensityRange (example_converter OVERWRITE) = [0, 65535]
   \<and> createPointReader (example_converter OVERWRITE) ''scan.pts'' [POSITION_CARTESIAN]
       = Some (XYZPointReader ''scan.pts'' ''xyzi'' [0, 255] [])
   \<and> createPointReader (example_converter OVERWRITE) ''scan.xyz'' [POSITION_CARTESIAN]
       = Some (XYZPointReader ''scan.xyz'' ''xyzi'' [0, 255] [0, 65535])"
  by (simp add: createPointReader_def example_converter_def iEndsWith_def tolower_def)

subsection \<open>The cadence of processing\<close>

lemma read_source_foldl:
  "read_source W st ns = foldl (push_batch W) st (takeWhile (\<lambda>n. n \<noteq> 0) ns)"
  by (induction ns arbitrary: st) simp_all

lemma read_sources_foldl:
  "read_sources W st readers = foldl (push_batch W) st (pushed readers)"
  unfolding read_sources_def pushed_def
  by (induction readers arbitrary: st) (simp_all add: read_source_foldl)

text \<open>A further batch that is not empty extends a run by one pass of the loop body.\<close>

lemma read_sources_next_batch:
  "n \<noteq> 0 \<Longrightarrow> read_sources W st (readers @ [[n]]) = push_batch W (read_sources W st readers) n"
  by (simp add: read_sources_def)

lemma push_batch_calls:
  "calls (push_batch W st n) =
     calls st @ [Add n]
       @ (if PROCESS_COUNT \<le> pointsSinceLastProcessing st + n
          then [ProcessStore, WaitUntilProcessed] else [])
       @ (if needs_flush W
               (if PROCESS_COUNT \<le> pointsSinceLastProcessing st + n
                then waitUntilProcessed W (processStore W (add W n (writer st)))
                else add W n (writer st))
          then [Flush] else [])"
  by (simp add: push_batch_def Let_def)

lemma push_batch_counter:
  "pointsSinceLastProcessing (push_batch W st n) =
     (if PROCESS_COUNT \<le> pointsSinceLastProcessing st + n
      then pointsSinceLastProcessing st + n - PROCESS_COUNT
      else pointsSinceLastProcessing st + n)"
  by (simp add: push_batch_def Let_def)

lemma push_batch_pointsProcessed:
  "pointsProcessed (push_batch W st n) = pointsProcessed st + n"
  by (simp add: push_batch_def Let_def)

lemma push_batch_processings:
  "processings (calls (push_batch W st n)) =
     processings (calls st) + (if PROCESS_COUNT \<le> pointsSinceLastProcessing st + n then 1 else 0)"
  by (simp add: push_batch_calls processings_def)

text \<open>The counter is what has been pushed, less \<^verbatim>\<open>PROCESS_COUNT\<close> for every processing.\<close>

lemma push_batch_carried:
  assumes "pointsSinceLastProcessing st = tot - PROCESS_COUNT * of_nat (processings (calls st))"
  shows "pointsSinceLastProcessing (push_batch W st n)
           = tot + n - PROCESS_COUNT * of_nat (processings (calls (push_batch W st n)))"
  unfolding push_batch_counter push_batch_processings using assms
  by (simp add: algebra_simps)

lemma foldl_push_batch_carried:
  assumes "pointsSinceLastProcessing st = tot - PROCESS_COUNT * of_nat (processings (calls st))"
  shows "pointsSinceLastProcessing (foldl (push_batch W) st bs)
           = tot + sum_list bs
               - PROCESS_COUNT * of_nat (processings (calls (foldl (push_batch W) st bs)))"
  using assms
proof (induction bs arbitrary: st tot)
  case Nil
  then show ?case by simp
next
  case (Cons b bs)
  from Cons.IH [OF push_batch_carried [OF Cons.prems]] show ?case
    by (simp add: add.assoc)
qed

lemma read_sources_carried:
  "pointsSinceLastProcessing (read_sources W (convert_start wr) readers)
     = sum_list (pushed readers)
         - PROCESS_COUNT * of_nat (processings (calls (read_sources W (convert_start wr) readers)))"
  using foldl_push_batch_carried [of "convert_start wr" 0 W "pushed readers"]
  by (simp add: read_sources_foldl convert_start_def processings_def)

text \<open>
  C2, as amended. At any point of a run, after the sources read so far, the next batch of
  \<open>n\<close> points is added to the writer; then \<^verbatim>\<open>processStore\<close> and, directly after it,
  \<^verbatim>\<open>waitUntilProcessed\<close> are called exactly when the carried counter has reached 1,000,000,
  where the carried counter is the number of points pushed so far, this batch included,
  less 1,000,000 for every processing made so far (in \<^verbatim>\<open>size_t\<close> arithmetic); a processing
  lowers the counter by 1,000,000 and does not reset it. Then \<^verbatim>\<open>flush\<close> is called exactly
  when the writer's \<^verbatim>\<open>needs_flush\<close> holds. Nothing else is called on the writer, and the
  next batch is read only after that.
\<close>

theorem processing_cadence:
  "let st = read_sources W (convert_start wr) readers;
       carried = sum_list (pushed readers) + n - PROCESS_COUNT * of_nat (processings (calls st));
       process = (PROCESS_COUNT \<le> carried);
       wr1 = add W n (writer st);
       wr2 = (if process then waitUntilProcessed W (processStore W wr1) else wr1)
   in PROCESS_COUNT = 1000000
      \<and> calls (push_batch W st n)
          = calls st @ [Add n]
              @ (if process then [ProcessStore, WaitUntilProcessed] else [])
              @ (if needs_flush W wr2 then [Flush] else [])
      \<and> pointsSinceLastProcessing (push_batch W st n)
          = (if process then carried - PROCESS_COUNT else carried)"
proof -
  let ?st = "read_sources W (convert_start wr) readers"
  have eq: "pointsSinceLastProcessing ?st + n
          = sum_list (pushed readers) + n - PROCESS_COUNT * of_nat (processings (calls ?st))"
    by (simp add: read_sources_carried)
  have pc: "PROCESS_COUNT = 1000000"
    by (simp add: PROCESS_COUNT_def)
  show ?thesis
    unfolding Let_def push_batch_calls push_batch_counter eq
    by (intro conjI pc refl)
qed

text \<open>
  Five batches of 400,000 points from one source. The writer processes after the third
  batch, when 1,200,000 points are queued, and again after the fifth, when only 800,000
  points have been queued since that processing: the count of points queued since the last
  processing has not reached 1,000,000, and yet the writer processes.
\<close>

theorem processing_cadence_counterexample:
  "calls (read_sources null_writer (convert_start ()) [[400000, 400000, 400000, 400000, 400000]])
     = [Add 400000, Add 400000, Add 400000, ProcessStore, WaitUntilProcessed,
        Add 400000, Add 400000, ProcessStore, WaitUntilProcessed]
   \<and> queued_since_last_processing 0
       [Add 400000, Add 400000, Add 400000, ProcessStore, WaitUntilProcessed,
        Add 400000, Add 400000] = 800000
   \<and> \<not> processes_exactly_when_queued 1000000 0
         (calls (read_sources null_writer (convert_start ())
            [[400000, 400000, 400000, 400000, 400000]]))"
  by (simp add: read_sources_def push_batch_def null_writer_def convert_start_def
      PROCESS_COUNT_def Let_def)

text \<open>With batches that add up to the threshold exactly, the two readings agree.\<close>

lemma aligned_batches_example:
  "calls (read_sources null_writer (convert_start ()) [[500000, 500000, 500000], [500000, 0, 7]])
     = [Add 500000, Add 500000, ProcessStore, WaitUntilProcessed,
        Add 500000, Add 500000, ProcessStore, WaitUntilProcessed]"
  "processes_exactly_when_queued 1000000 0
     (calls (read_sources null_writer (convert_start ()) [[500000, 500000, 500000], [500000, 0, 7]]))"
  by (simp_all add: read_sources_def push_batch_def null_writer_def convert_start_def
      PROCESS_COUNT_def Let_def)

end
